theory Spec2Isabelle
  imports Complex_Main "HOL-Library.Multiset"
begin

section \<open>JavaScript numbers\<close>

text \<open>
  The popularity score is a JavaScript Number. The model keeps every special value of
  IEEE 754 that the code can produce or compare: \<open>NaN\<close>, the two infinities and the
  negative zero. \<open>Fin q\<close> is the finite number \<open>q\<close>, with \<open>Fin 0\<close> the positive zero.
  Finite quotients are exact rationals: rounding to binary64 is not modelled. Both
  operands of every division are array lengths (below \<open>2 ^ 32\<close>), so two different
  quotients with the same denominator stay different after rounding and the order of the
  scores is the order of the rationals.
\<close>

datatype jsnum = Fin rat | NegZero | PosInf | NegInf | NaN

text \<open>The mathematical value of a finite number (both zeros have value 0).\<close>

fun fin_val :: "jsnum \<Rightarrow> rat" where
  "fin_val (Fin q) = q"
| "fin_val _ = 0"

text \<open>
  \<open>a / b\<close> for two integer-valued Numbers, neither of them the negative zero: in
  \<open>likes / (totalUsers-1)\<close> the dividend is a length or the literal 0, and the divisor
  is a length minus one (\<open>1 - 1\<close> is the positive zero).
\<close>

definition js_div :: "int \<Rightarrow> int \<Rightarrow> jsnum" where
  "js_div a b =
     (if b = 0 then (if a = 0 then NaN else if 0 < a then PosInf else NegInf)
      else if a = 0 then (if b < 0 then NegZero else Fin 0)
      else Fin (of_int a / of_int b))"

text \<open>The relational operators \<open><=\<close>, \<open>>=\<close>, \<open><\<close>, \<open>>\<close> and the strict equality \<open>===\<close>.\<close>

fun js_le :: "jsnum \<Rightarrow> jsnum \<Rightarrow> bool" where
  "js_le NaN _ = False"
| "js_le _ NaN = False"
| "js_le NegInf _ = True"
| "js_le _ PosInf = True"
| "js_le PosInf _ = False"
| "js_le _ NegInf = False"
| "js_le x y = (fin_val x \<le> fin_val y)"

definition js_ge :: "jsnum \<Rightarrow> jsnum \<Rightarrow> bool" where
  "js_ge x y = js_le y x"

fun js_lt :: "jsnum \<Rightarrow> jsnum \<Rightarrow> bool" where
  "js_lt NaN _ = False"
| "js_lt _ NaN = False"
| "js_lt x y = (\<not> js_le y x)"

definition js_gt :: "jsnum \<Rightarrow> jsnum \<Rightarrow> bool" where
  "js_gt x y = js_lt y x"

fun js_strict_equals :: "jsnum \<Rightarrow> jsnum \<Rightarrow> bool" where
  "js_strict_equals NaN _ = False"
| "js_strict_equals _ NaN = False"
| "js_strict_equals PosInf y = (y = PosInf)"
| "js_strict_equals NegInf y = (y = NegInf)"
| "js_strict_equals x PosInf = False"
| "js_strict_equals x NegInf = False"
| "js_strict_equals x y = (fin_val x = fin_val y)"

text \<open>\<open>x - y\<close> on Numbers.\<close>

fun js_sub :: "jsnum \<Rightarrow> jsnum \<Rightarrow> jsnum" where
  "js_sub NaN _ = NaN"
| "js_sub _ NaN = NaN"
| "js_sub PosInf PosInf = NaN"
| "js_sub PosInf _ = PosInf"
| "js_sub NegInf NegInf = NaN"
| "js_sub NegInf _ = NegInf"
| "js_sub _ PosInf = NegInf"
| "js_sub _ NegInf = PosInf"
| "js_sub NegZero NegZero = Fin 0"
| "js_sub NegZero (Fin q) = (if q = 0 then NegZero else Fin (- q))"
| "js_sub (Fin q) NegZero = Fin q"
| "js_sub (Fin p) (Fin q) = Fin (p - q)"

text \<open>
  \<open>v || 0\<close> where \<open>v\<close> is a Number or \<open>undefined\<close> (\<open>None\<close>): the falsy values
  \<open>undefined\<close>, \<open>NaN\<close>, \<open>0\<close> and \<open>-0\<close> give the literal 0.
\<close>

definition or_zero :: "jsnum option \<Rightarrow> jsnum" where
  "or_zero v =
     (case v of
        None \<Rightarrow> Fin 0
      | Some x \<Rightarrow> if x = NaN \<or> x = Fin 0 \<or> x = NegZero then Fin 0 else x)"

section \<open>Strings\<close>

text \<open>
  A JavaScript string is a sequence of UTF-16 code units, each a number below 65536.
  \<open>str\<close> reads a literal, whose characters are the code units below 256. The order key
  of the listing is only compared with four ASCII literals and stays a literal.
\<close>

type_synonym jsstring = "nat list"

definition str :: "string \<Rightarrow> jsstring" where
  "str s = map of_char s"

fun startsWith :: "jsstring \<Rightarrow> jsstring \<Rightarrow> bool" where
  "startsWith s [] = True"
| "startsWith [] (q # qs) = False"
| "startsWith (c # cs) (q # qs) = (c = q \<and> startsWith cs qs)"

text \<open>\<open>s.includes(q)\<close>: \<open>q\<close> occurs in \<open>s\<close> at some position.\<close>

fun str_includes :: "jsstring \<Rightarrow> jsstring \<Rightarrow> bool" where
  "str_includes [] q = (q = [])"
| "str_includes (c # cs) q = (startsWith (c # cs) q \<or> str_includes cs q)"

section \<open>Entities\<close>

text \<open>
  Identifiers are integers; a \<open>Date\<close> is its time value \<open>getTime()\<close> in milliseconds
  (the stored dates are valid dates). An optional field (\<open>likes?\<close>) and a nullable one
  (\<open>content\<close>) are options.
\<close>

record likePost =
  like_id :: int
  userId :: int
  postId :: int
  createdAt :: int

record post =
  post_id :: int
  title :: jsstring
  content :: "jsstring option"
  deleted :: bool
  authorId :: int
  date :: int
  authorName :: jsstring
  likes :: "likePost list option"

text \<open>
  Modelled from the spec: the entity \<open>User\<close> (domain/entities/user) is not among the
  sources; its fields are those of the data model and of the objects the test builds.
\<close>

record user =
  user_id :: int
  name :: jsstring
  email :: jsstring
  password :: jsstring
  role :: jsstring
  banned :: bool

record score =
  score_id :: int
  popularity :: jsnum

section \<open>The collaborators\<close>

text \<open>
  The two repositories are a store that is read: \<open>readAll\<close> returns the stored
  sequence in a fresh array and leaves the store as it is. Every call on a collaborator
  is appended to \<open>calls\<close>, so that the effects of an operation can be stated.
\<close>

datatype call = PostReadAll | UserReadAll

record world =
  postStore :: "post list"
  userStore :: "user list"
  calls :: "call list"

text \<open>
  Modelled from the spec: \<open>PostRepository.readAll\<close> of the persistence adapter, the
  read-only capability \<open>PostSource.readAll()\<close>.
\<close>

definition postRepository_readAll :: "world \<Rightarrow> post list \<times> world" where
  "postRepository_readAll w = (postStore w, w\<lparr>calls := calls w @ [PostReadAll]\<rparr>)"

text \<open>
  Modelled from the spec: \<open>UserRepository.readAll\<close> of the persistence adapter, the
  read-only capability \<open>UserSource.readAll()\<close>.
\<close>

definition userRepository_readAll :: "world \<Rightarrow> user list \<times> world" where
  "userRepository_readAll w = (userStore w, w\<lparr>calls := calls w @ [UserReadAll]\<rparr>)"

text \<open>
  Modelled from the spec: the use case \<open>ReadAllPosts.execute\<close> (usecases/atomic/post),
  step 1 of the listing: fetch the full post snapshot from the post collaborator.
\<close>

definition ReadAllPosts_execute :: "world \<Rightarrow> post list \<times> world" where
  "ReadAllPosts_execute w = postRepository_readAll w"

section \<open>PostsPopularity\<close>

text \<open>\<open>post.likes?.length || 0\<close>\<close>

definition likeCount :: "post \<Rightarrow> int" where
  "likeCount p =
     (case likes p of
        None \<Rightarrow> 0
      | Some ls \<Rightarrow> if length ls = 0 then 0 else int (length ls))"

text \<open>The callback of \<open>posts.map\<close> in \<open>PostsPopularity.execute\<close>.\<close>

definition postPopularity :: "user list \<Rightarrow> post \<Rightarrow> score" where
  "postPopularity users p =
     (let likes = likeCount p;
          totalUsers = int (length users);
          popularity = js_div likes (totalUsers - 1)
      in if js_ge popularity (Fin 0) then \<lparr>score_id = post_id p, popularity = popularity\<rparr>
         else \<lparr>score_id = post_id p, popularity = Fin 0\<rparr>)"

definition computePopularity :: "post list \<Rightarrow> user list \<Rightarrow> score list" where
  "computePopularity posts users = map (postPopularity users) posts"

definition PostsPopularity_execute :: "world \<Rightarrow> score list \<times> world" where
  "PostsPopularity_execute w =
     (let (posts, w1) = postRepository_readAll w;
          (users, w2) = userRepository_readAll w1
      in (computePopularity posts users, w2))"

section \<open>Array.prototype.sort\<close>

text \<open>
  \<open>sortCompare\<close> is the abstract operation of the language specification that reads
  the comparator's result: a \<open>NaN\<close> counts as 0. The sort is stable, so for a consistent
  comparator its result is the one of the stable insertion sort below: an element moves
  behind another only when the comparator returns a number greater than 0 for the pair.
\<close>

definition sortCompare :: "('a \<Rightarrow> 'a \<Rightarrow> jsnum) \<Rightarrow> 'a \<Rightarrow> 'a \<Rightarrow> jsnum" where
  "sortCompare comparefn x y = (case comparefn x y of NaN \<Rightarrow> Fin 0 | v \<Rightarrow> v)"

fun js_insert :: "('a \<Rightarrow> 'a \<Rightarrow> jsnum) \<Rightarrow> 'a \<Rightarrow> 'a list \<Rightarrow> 'a list" where
  "js_insert comparefn x [] = [x]"
| "js_insert comparefn x (y # ys) =
     (if js_gt (sortCompare comparefn x y) (Fin 0) then y # js_insert comparefn x ys
      else x # y # ys)"

fun js_sort :: "('a \<Rightarrow> 'a \<Rightarrow> jsnum) \<Rightarrow> 'a list \<Rightarrow> 'a list" where
  "js_sort comparefn [] = []"
| "js_sort comparefn (x # xs) = js_insert comparefn x (js_sort comparefn xs)"

section \<open>PostController.readAll\<close>

text \<open>
  The callback of \<open>posts.filter\<close>; an absent content makes the second half falsy.
  \<open>toLowerCase\<close> is the host's \<open>String.prototype.toLowerCase\<close>, the lower-case
  mapping of Unicode, a parameter of the model.
\<close>

definition matchesSearch :: "(jsstring \<Rightarrow> jsstring) \<Rightarrow> jsstring \<Rightarrow> post \<Rightarrow> bool" where
  "matchesSearch toLowerCase searchQuery p =
     (str_includes (toLowerCase (title p)) (toLowerCase searchQuery) \<or>
      (case content p of
         None \<Rightarrow> False
       | Some c \<Rightarrow> str_includes (toLowerCase c) (toLowerCase searchQuery)))"

text \<open>\<open>if (searchQuery) { posts = posts.filter(...) }\<close>: an empty string is falsy.\<close>

definition searchFilter ::
  "(jsstring \<Rightarrow> jsstring) \<Rightarrow> jsstring option \<Rightarrow> post list \<Rightarrow> post list"
where
  "searchFilter toLowerCase searchQuery posts =
     (case searchQuery of
        None \<Rightarrow> posts
      | Some q \<Rightarrow> if q = [] then posts else filter (matchesSearch toLowerCase q) posts)"

text \<open>\<open>postsPopularity.find(p => p.id === a.id)?.popularity || 0\<close>\<close>

definition lookupPopularity :: "score list \<Rightarrow> post \<Rightarrow> jsnum" where
  "lookupPopularity postsPopularity a =
     or_zero (map_option popularity (find (\<lambda>p. score_id p = post_id a) postsPopularity))"

text \<open>
  The listing (\<open>listPosts\<close> in the specification). \<open>localeCompare\<close> is the host's
  locale-aware comparison of two strings and \<open>toLowerCase\<close> its lower-case mapping,
  both parameters of the model; \<open>order\<close> is the path
  parameter and \<open>searchQuery\<close> the query parameter \<open>q\<close>, \<open>None\<close> when absent. The value
  returned is the sequence sent as the response. An error of a fetch is handed to
  \<open>next\<close> unchanged; the model covers the runs in which the fetches succeed.
\<close>

definition PostController_readAll ::
  "(jsstring \<Rightarrow> jsstring \<Rightarrow> int) \<Rightarrow> (jsstring \<Rightarrow> jsstring) \<Rightarrow> string option \<Rightarrow>
     jsstring option \<Rightarrow> world \<Rightarrow> post list \<times> world"
where
  "PostController_readAll localeCompare toLowerCase order searchQuery w =
     (let (posts0, w1) = ReadAllPosts_execute w;
          posts = searchFilter toLowerCase searchQuery posts0
      in if order = Some ''nombre-asc'' then
           (js_sort (\<lambda>a b. Fin (of_int (localeCompare (title a) (title b)))) posts, w1)
         else if order = Some ''nombre-desc'' then
           (js_sort (\<lambda>a b. Fin (of_int (localeCompare (title b) (title a)))) posts, w1)
         else if order = Some ''popularidad-asc'' \<or> order = Some ''popularidad-desc'' then
           (let (postsPopularity, w2) = PostsPopularity_execute w1
            in (js_sort
                  (\<lambda>a b.
                     let popularityA = lookupPopularity postsPopularity a;
                         popularityB = lookupPopularity postsPopularity b
                     in if order = Some ''popularidad-asc''
                        then js_sub popularityA popularityB
                        else js_sub popularityB popularityA)
                  posts, w2))
         else (js_sort (\<lambda>a b. Fin (of_int (date b - date a))) posts, w1))"

section \<open>Consistent comparators and ties\<close>

text \<open>
  The language specification fixes the result of a sort only for a consistent comparator.
  \<open>consistentOn\<close> says so of \<open>localeCompare\<close> on the titles that are sorted: the
  sign of the result flips when the arguments are exchanged, and "not after" is
  transitive. The other two predicates say that no two different posts of a list tie
  under the key of the sort.
\<close>

definition consistentOn :: "(jsstring \<Rightarrow> jsstring \<Rightarrow> int) \<Rightarrow> jsstring list \<Rightarrow> bool" where
  "consistentOn localeCompare ts =
     ((\<forall>s \<in> set ts. \<forall>t \<in> set ts. (0 < localeCompare s t) = (localeCompare t s < 0)) \<and>
      (\<forall>s \<in> set ts. \<forall>t \<in> set ts. \<forall>u \<in> set ts.
         localeCompare s t \<le> 0 \<and> localeCompare t u \<le> 0 \<longrightarrow> localeCompare s u \<le> 0))"

definition noTitleTies :: "(jsstring \<Rightarrow> jsstring \<Rightarrow> int) \<Rightarrow> post list \<Rightarrow> bool" where
  "noTitleTies localeCompare posts =
     (\<forall>a \<in> set posts. \<forall>b \<in> set posts. localeCompare (title a) (title b) = 0 \<longrightarrow> a = b)"

definition noPopularityTies :: "score list \<Rightarrow> post list \<Rightarrow> bool" where
  "noPopularityTies postsPopularity posts =
     (\<forall>a \<in> set posts. \<forall>b \<in> set posts.
        lookupPopularity postsPopularity a = lookupPopularity postsPopularity b \<longrightarrow> a = b)"

section \<open>Example data\<close>

text \<open>
  Instances of the two host functions for the concrete examples. \<open>compareCodes\<close>
  compares two strings by their code units. \<open>lowerLatin1\<close> is the lower-case mapping
  of Unicode on the code units below 256: the letters \<open>A\<close> to \<open>Z\<close> and the accented
  capitals (192 to 214, 216 to 222) move up by 32, every other code unit below 256 stays.
  The examples apply it to such strings only.
\<close>

fun compareCodes :: "jsstring \<Rightarrow> jsstring \<Rightarrow> int" where
  "compareCodes [] [] = 0"
| "compareCodes [] (y # ys) = - 1"
| "compareCodes (x # xs) [] = 1"
| "compareCodes (x # xs) (y # ys) =
     (if x < y then - 1 else if y < x then 1 else compareCodes xs ys)"

definition lowerUnit :: "nat \<Rightarrow> nat" where
  "lowerUnit n =
     (if (65 \<le> n \<and> n \<le> 90) \<or> (192 \<le> n \<and> n \<le> 214) \<or> (216 \<le> n \<and> n \<le> 222)
      then n + 32 else n)"

definition lowerLatin1 :: "jsstring \<Rightarrow> jsstring" where
  "lowerLatin1 s = map lowerUnit s"

text \<open>The posts and users of the test, and a soft-deleted post with no content and no likes.\<close>

definition post1 :: post where
  "post1 = \<lparr>post_id = 1, title = str ''Post 1'', content = Some (str ''Contenido 1''),
     deleted = False, authorId = 1, date = 1000, authorName = str ''Autor 1'',
     likes = Some [\<lparr>like_id = 2, userId = 2, postId = 1, createdAt = 1001\<rparr>,
                   \<lparr>like_id = 3, userId = 3, postId = 1, createdAt = 1002\<rparr>]\<rparr>"

definition post2 :: post where
  "post2 = \<lparr>post_id = 2, title = str ''Post 2'', content = Some (str ''Contenido 2''),
     deleted = False, authorId = 2, date = 2000, authorName = str ''Autor 2'',
     likes = Some [\<lparr>like_id = 1, userId = 1, postId = 2, createdAt = 2001\<rparr>]\<rparr>"

definition post3 :: post where
  "post3 = \<lparr>post_id = 3, title = str ''Post sin likes'', content = None, deleted = True,
     authorId = 1, date = 3000, authorName = str ''Autor 1'', likes = None\<rparr>"

text \<open>A second post with the title of \<open>post3\<close> and, like it, no likes.\<close>

definition post4 :: post where
  "post4 = \<lparr>post_id = 4, title = str ''Post sin likes'', content = Some (str ''Contenido''),
     deleted = False, authorId = 2, date = 4000, authorName = str ''Autor 2'',
     likes = Some []\<rparr>"

text \<open>
  A post titled \<open>CAF\<close> followed by the code unit 201 (E with acute accent), written by
  user 1 and liked twice by user 4.
\<close>

definition post5 :: post where
  "post5 = \<lparr>post_id = 5, title = str ''CAF'' @ [201], content = None, deleted = False,
     authorId = 1, date = 5000, authorName = str ''Autor 1'',
     likes = Some [\<lparr>like_id = 4, userId = 4, postId = 5, createdAt = 5001\<rparr>,
                   \<lparr>like_id = 5, userId = 4, postId = 5, createdAt = 5002\<rparr>]\<rparr>"

definition user1 :: user where
  "user1 = \<lparr>user_id = 1, name = str ''Usuario 1'', email = str ''usuario1@example.com'',
     password = str ''password'', role = str ''user'', banned = False\<rparr>"

definition user2 :: user where
  "user2 = \<lparr>user_id = 2, name = str ''Usuario 2'', email = str ''usuario2@example.com'',
     password = str ''password'', role = str ''user'', banned = False\<rparr>"

definition user3 :: user where
  "user3 = \<lparr>user_id = 3, name = str ''Usuario 3'', email = str ''usuario3@example.com'',
     password = str ''password'', role = str ''user'', banned = False\<rparr>"

text \<open>A banned administrator.\<close>

definition user4 :: user where
  "user4 = \<lparr>user_id = 4, name = str ''Usuario 4'', email = str ''usuario4@example.com'',
     password = str ''password'', role = str ''admin'', banned = True\<rparr>"

definition exampleWorld :: world where
  "exampleWorld = \<lparr>postStore = [post1, post2, post3], userStore = [user1, user2, user3],
     calls = []\<rparr>"

definition tieWorld :: world where
  "tieWorld = \<lparr>postStore = [post3, post4], userStore = [user1, user2, user3], calls = []\<rparr>"

definition accentWorld :: world where
  "accentWorld = \<lparr>postStore = [post1, post5], userStore = [user1, user4, user2], calls = []\<rparr>"

section \<open>Theorems\<close>

subsection \<open>Substring test\<close>

lemma startsWith_iff: "startsWith s q \<longleftrightarrow> (\<exists>ss. s = q @ ss)"
  by (induction s q rule: startsWith.induct) auto

lemma str_includes_iff: "str_includes s q \<longleftrightarrow> (\<exists>ps ss. s = ps @ q @ ss)"
proof (induction s)
  case Nil
  then show ?case by auto
next
  case (Cons c cs)
  show ?case
  proof
    assume "str_includes (c # cs) q"
    then consider "startsWith (c # cs) q" | "str_includes cs q" by auto
    then show "\<exists>ps ss. c # cs = ps @ q @ ss"
    proof cases
      case 1
      then obtain ss where "c # cs = q @ ss" by (auto simp: startsWith_iff)
      then have "c # cs = [] @ q @ ss" by simp
      then show ?thesis by blast
    next
      case 2
      then obtain ps ss where "cs = ps @ q @ ss" using Cons.IH by auto
      then have "c # cs = (c # ps) @ q @ ss" by simp
      then show ?thesis by blast
    qed
  next
    assume "\<exists>ps ss. c # cs = ps @ q @ ss"
    then obtain ps ss where e: "c # cs = ps @ q @ ss" by blast
    show "str_includes (c # cs) q"
    proof (cases ps)
      case Nil
      with e have "startsWith (c # cs) q" by (auto simp: startsWith_iff)
      then show ?thesis by simp
    next
      case (Cons a as)
      with e have "cs = as @ q @ ss" by simp
      then have "str_includes cs q" using Cons.IH by blast
      then show ?thesis by simp
    qed
  qed
qed

subsection \<open>The sort: a permutation, sorted when the comparator is consistent\<close>

lemma mset_js_insert: "mset (js_insert c x ys) = add_mset x (mset ys)"
  by (induction ys) auto

lemma mset_js_sort: "mset (js_sort c xs) = mset xs"
  by (induction xs) (auto simp: mset_js_insert)

lemma set_js_insert: "set (js_insert c x ys) = insert x (set ys)"
  by (induction ys) auto

lemma set_js_sort: "set (js_sort c xs) = set xs"
  by (induction xs) (auto simp: set_js_insert)

lemma sorted_js_insert:
  assumes "sorted_wrt le ys"
    and "\<And>y. y \<in> set ys \<Longrightarrow> js_gt (sortCompare c x y) (Fin 0) = (\<not> le x y)"
    and "\<And>y. y \<in> set ys \<Longrightarrow> le x y \<or> le y x"
    and "\<And>y z. y \<in> set ys \<Longrightarrow> z \<in> set ys \<Longrightarrow> le x y \<Longrightarrow> le y z \<Longrightarrow> le x z"
  shows "sorted_wrt le (js_insert c x ys)"
  using assms
proof (induction ys)
  case Nil
  then show ?case by simp
next
  case (Cons y ys)
  have srt: "sorted_wrt le ys" and hd: "\<forall>z \<in> set ys. le y z"
    using Cons.prems(1) by simp_all
  have gt: "js_gt (sortCompare c x y) (Fin 0) = (\<not> le x y)"
    using Cons.prems(2)[of y] by simp
  show ?case
  proof (cases "le x y")
    case True
    have "le x z" if "z \<in> set ys" for z
      using Cons.prems(4)[of y z] True hd that by simp
    then show ?thesis using True gt srt hd by simp
  next
    case False
    have yx: "le y x" using False Cons.prems(3)[of y] by simp
    have "sorted_wrt le (js_insert c x ys)"
    proof (rule Cons.IH[OF srt])
      fix z assume z: "z \<in> set ys"
      show "js_gt (sortCompare c x z) (Fin 0) = (\<not> le x z)" using Cons.prems(2)[of z] z by simp
      show "le x z \<or> le z x" using Cons.prems(3)[of z] z by simp
    next
      fix u v assume "u \<in> set ys" "v \<in> set ys" "le x u" "le u v"
      then show "le x v" using Cons.prems(4)[of u v] by simp
    qed
    then show ?thesis using False gt yx hd by (simp add: set_js_insert)
  qed
qed


lemma sorted_js_sort_on:
  assumes gt: "\<And>x y. x \<in> A \<Longrightarrow> y \<in> A \<Longrightarrow> js_gt (sortCompare c x y) (Fin 0) = (\<not> le x y)"
    and total: "\<And>x y. x \<in> A \<Longrightarrow> y \<in> A \<Longrightarrow> le x y \<or> le y x"
    and trans: "\<And>x y z. x \<in> A \<Longrightarrow> y \<in> A \<Longrightarrow> z \<in> A \<Longrightarrow> le x y \<Longrightarrow> le y z \<Longrightarrow> le x z"
  shows "set xs \<subseteq> A \<Longrightarrow> sorted_wrt le (js_sort c xs)"
proof (induction xs)
  case Nil
  show ?case by simp
next
  case (Cons x xs)
  have xA: "x \<in> A" and sub: "set (js_sort c xs) \<subseteq> A"
    using Cons.prems by (simp_all add: set_js_sort)
  have srt: "sorted_wrt le (js_sort c xs)"
    using Cons.IH Cons.prems by simp
  have "sorted_wrt le (js_insert c x (js_sort c xs))"
  proof (rule sorted_js_insert[OF srt])
    fix y assume "y \<in> set (js_sort c xs)"
    then have y: "y \<in> A" using sub by blast
    show "js_gt (sortCompare c x y) (Fin 0) = (\<not> le x y)" by (rule gt[OF xA y])
    show "le x y \<or> le y x" by (rule total[OF xA y])
  next
    fix y z assume "y \<in> set (js_sort c xs)" "z \<in> set (js_sort c xs)" and l: "le x y" "le y z"
    then have "y \<in> A" "z \<in> A" using sub by blast+
    then show "le x z" using trans[OF xA _ _ l] by blast
  qed
  then show ?case by simp
qed

lemma sorted_js_sort:
  assumes "\<And>x y. x \<in> set xs \<Longrightarrow> y \<in> set xs \<Longrightarrow> js_gt (sortCompare c x y) (Fin 0) = (\<not> le x y)"
    and "\<And>x y. x \<in> set xs \<Longrightarrow> y \<in> set xs \<Longrightarrow> le x y \<or> le y x"
    and "\<And>x y z. x \<in> set xs \<Longrightarrow> y \<in> set xs \<Longrightarrow> z \<in> set xs \<Longrightarrow> le x y \<Longrightarrow> le y z \<Longrightarrow> le x z"
  shows "sorted_wrt le (js_sort c xs)"
  by (rule sorted_js_sort_on[of "set xs" c le xs, OF assms]) simp_all

lemma sorted_wrt_unique:
  assumes "sorted_wrt le xs" and "sorted_wrt le ys" and "mset xs = mset ys"
    and "\<And>x y. x \<in> set xs \<Longrightarrow> y \<in> set xs \<Longrightarrow> le x y \<Longrightarrow> le y x \<Longrightarrow> x = y"
  shows "xs = ys"
  using assms
proof (induction xs arbitrary: ys)
  case Nil
  then show ?case by simp
next
  case (Cons x xs)
  then obtain y ys' where ys: "ys = y # ys'" by (cases ys) auto
  have sets: "set (x # xs) = set (y # ys')" using Cons.prems(3) ys by (metis set_mset_mset)
  have "x = y"
  proof (rule ccontr)
    assume ne: "x \<noteq> y"
    then have "x \<in> set ys'" using sets by auto
    then have 1: "le y x" using Cons.prems(2) ys by auto
    have "y \<in> set xs" using sets ne by auto
    then have 2: "le x y" using Cons.prems(1) by auto
    have "y \<in> set (x # xs)" using sets by auto
    then show False using Cons.prems(4)[of x y] 1 2 ne by auto
  qed
  moreover have "xs = ys'"
  proof (rule Cons.IH)
    show "sorted_wrt le xs" using Cons.prems(1) by simp
    show "sorted_wrt le ys'" using Cons.prems(2) ys by simp
    show "mset xs = mset ys'" using Cons.prems(3) ys \<open>x = y\<close> by simp
    show "\<And>a b. a \<in> set xs \<Longrightarrow> b \<in> set xs \<Longrightarrow> le a b \<Longrightarrow> le b a \<Longrightarrow> a = b"
      using Cons.prems(4) by simp
  qed
  ultimately show ?case using ys by simp
qed

subsection \<open>Comparators\<close>

lemma or_zero_key: "or_zero v \<noteq> NaN \<and> or_zero v \<noteq> NegZero"
  by (simp add: or_zero_def split: option.splits)

lemma lookupPopularity_key:
  "lookupPopularity t a \<noteq> NaN" "lookupPopularity t a \<noteq> NegZero"
  by (simp_all add: lookupPopularity_def or_zero_key)

lemma js_sub_gt:
  assumes "x \<noteq> NaN" "x \<noteq> NegZero" "y \<noteq> NaN" "y \<noteq> NegZero"
  shows "js_gt (case js_sub x y of NaN \<Rightarrow> Fin 0 | v \<Rightarrow> v) (Fin 0) = (\<not> js_le x y)"
  using assms by (cases x; cases y) (auto simp: js_gt_def)

lemma js_le_total:
  assumes "x \<noteq> NaN" "y \<noteq> NaN"
  shows "js_le x y \<or> js_le y x"
  using assms by (cases x; cases y) auto

lemma js_le_trans: "js_le x y \<Longrightarrow> js_le y z \<Longrightarrow> js_le x z"
  by (cases x; cases y; cases z) auto

lemma js_le_antisym:
  assumes "x \<noteq> NegZero" "y \<noteq> NegZero" "js_le x y" "js_le y x"
  shows "x = y"
  using assms by (cases x; cases y) auto

lemma of_int_gt: "js_gt (sortCompare (\<lambda>a b. Fin (of_int (f a b))) x y) (Fin 0) = (0 < f x y)"
  by (auto simp: sortCompare_def js_gt_def)

lemma sorted_popularidad_asc:
  "sorted_wrt (\<lambda>a b. js_le (lookupPopularity t a) (lookupPopularity t b))
     (js_sort (\<lambda>a b. js_sub (lookupPopularity t a) (lookupPopularity t b)) xs)"
proof (rule sorted_js_sort)
  fix x y
  show "js_gt (sortCompare (\<lambda>a b. js_sub (lookupPopularity t a) (lookupPopularity t b)) x y) (Fin 0)
        = (\<not> js_le (lookupPopularity t x) (lookupPopularity t y))"
    unfolding sortCompare_def by (rule js_sub_gt) (rule lookupPopularity_key)+
  show "js_le (lookupPopularity t x) (lookupPopularity t y) \<or>
        js_le (lookupPopularity t y) (lookupPopularity t x)"
    by (rule js_le_total) (rule lookupPopularity_key)+
next
  fix x y z
  assume "js_le (lookupPopularity t x) (lookupPopularity t y)"
    "js_le (lookupPopularity t y) (lookupPopularity t z)"
  then show "js_le (lookupPopularity t x) (lookupPopularity t z)" by (rule js_le_trans)
qed

lemma sorted_popularidad_desc:
  "sorted_wrt (\<lambda>a b. js_le (lookupPopularity t b) (lookupPopularity t a))
     (js_sort (\<lambda>a b. js_sub (lookupPopularity t b) (lookupPopularity t a)) xs)"
proof (rule sorted_js_sort)
  fix x y
  show "js_gt (sortCompare (\<lambda>a b. js_sub (lookupPopularity t b) (lookupPopularity t a)) x y) (Fin 0)
        = (\<not> js_le (lookupPopularity t y) (lookupPopularity t x))"
    unfolding sortCompare_def by (rule js_sub_gt) (rule lookupPopularity_key)+
  show "js_le (lookupPopularity t y) (lookupPopularity t x) \<or>
        js_le (lookupPopularity t x) (lookupPopularity t y)"
    by (rule js_le_total) (rule lookupPopularity_key)+
next
  fix x y z
  assume "js_le (lookupPopularity t y) (lookupPopularity t x)"
    "js_le (lookupPopularity t z) (lookupPopularity t y)"
  then show "js_le (lookupPopularity t z) (lookupPopularity t x)" using js_le_trans by blast
qed

lemma sorted_date_desc:
  "sorted_wrt (\<lambda>a b. date b \<le> date a) (js_sort (\<lambda>a b. Fin (of_int (date b - date a))) (xs :: post list))"
proof (rule sorted_js_sort)
  fix x y :: post
  show "js_gt (sortCompare (\<lambda>a b. Fin (of_int (date b - date a))) x y) (Fin 0)
        = (\<not> date y \<le> date x)"
    unfolding of_int_gt by auto
  show "date y \<le> date x \<or> date x \<le> date y" by auto
next
  fix x y z :: post
  assume "date y \<le> date x" "date z \<le> date y"
  then show "date z \<le> date x" by simp
qed

lemma lookupPopularity_missing:
  "find (\<lambda>p. score_id p = post_id a) t = None \<Longrightarrow> lookupPopularity t a = Fin 0"
  by (simp add: lookupPopularity_def or_zero_def)

subsection \<open>Shape of the listing\<close>

lemma readAll_nombre_asc:
  "PostController_readAll lc lower (Some ''nombre-asc'') q w =
     (js_sort (\<lambda>a b. Fin (of_int (lc (title a) (title b)))) (searchFilter lower q (postStore w)),
      w\<lparr>calls := calls w @ [PostReadAll]\<rparr>)"
  by (simp add: PostController_readAll_def ReadAllPosts_execute_def postRepository_readAll_def)

lemma readAll_nombre_desc:
  "PostController_readAll lc lower (Some ''nombre-desc'') q w =
     (js_sort (\<lambda>a b. Fin (of_int (lc (title b) (title a)))) (searchFilter lower q (postStore w)),
      w\<lparr>calls := calls w @ [PostReadAll]\<rparr>)"
  by (simp add: PostController_readAll_def ReadAllPosts_execute_def postRepository_readAll_def)

lemma readAll_popularidad_asc:
  "PostController_readAll lc lower (Some ''popularidad-asc'') q w =
     (js_sort (\<lambda>a b. js_sub (lookupPopularity (computePopularity (postStore w) (userStore w)) a)
                             (lookupPopularity (computePopularity (postStore w) (userStore w)) b))
        (searchFilter lower q (postStore w)),
      w\<lparr>calls := calls w @ [PostReadAll, PostReadAll, UserReadAll]\<rparr>)"
  by (simp add: PostController_readAll_def ReadAllPosts_execute_def postRepository_readAll_def
      PostsPopularity_execute_def userRepository_readAll_def)

lemma readAll_popularidad_desc:
  "PostController_readAll lc lower (Some ''popularidad-desc'') q w =
     (js_sort (\<lambda>a b. js_sub (lookupPopularity (computePopularity (postStore w) (userStore w)) b)
                             (lookupPopularity (computePopularity (postStore w) (userStore w)) a))
        (searchFilter lower q (postStore w)),
      w\<lparr>calls := calls w @ [PostReadAll, PostReadAll, UserReadAll]\<rparr>)"
  by (simp add: PostController_readAll_def ReadAllPosts_execute_def postRepository_readAll_def
      PostsPopularity_execute_def userRepository_readAll_def)

lemma readAll_default:
  assumes "order \<noteq> Some ''nombre-asc''" "order \<noteq> Some ''nombre-desc''"
    "order \<noteq> Some ''popularidad-asc''" "order \<noteq> Some ''popularidad-desc''"
  shows "PostController_readAll lc lower order q w =
     (js_sort (\<lambda>a b. Fin (of_int (date b - date a))) (searchFilter lower q (postStore w)),
      w\<lparr>calls := calls w @ [PostReadAll]\<rparr>)"
  using assms
  by (simp add: PostController_readAll_def ReadAllPosts_execute_def postRepository_readAll_def)

lemma readAll_cases:
  obtains "order = Some ''nombre-asc''" | "order = Some ''nombre-desc''"
  | "order = Some ''popularidad-asc''" | "order = Some ''popularidad-desc''"
  | "order \<noteq> Some ''nombre-asc''" "order \<noteq> Some ''nombre-desc''"
    "order \<noteq> Some ''popularidad-asc''" "order \<noteq> Some ''popularidad-desc''"
  by blast

lemma mset_readAll:
  "mset (fst (PostController_readAll lc lower order q w)) = mset (searchFilter lower q (postStore w))"
  by (cases order rule: readAll_cases)
     (simp_all add: readAll_nombre_asc readAll_nombre_desc readAll_popularidad_asc
        readAll_popularidad_desc readAll_default mset_js_sort)

subsection \<open>The popularity computation\<close>

lemma likeCount_eq:
  "likeCount p = (case likes p of None \<Rightarrow> 0 | Some ls \<Rightarrow> int (length ls))"
  by (simp add: likeCount_def split: option.splits)

text \<open>
  C1: \<open>computePopularity\<close> returns one entry per input post, in the order of the input:
  the entry at position \<open>i\<close> carries the id of the post at position \<open>i\<close> and the
  quotient of its number of likes (0 when the collection is absent) by the number of
  users minus one when that quotient is \<open>>= 0\<close>, and 0 otherwise. An empty list of posts
  gives an empty result.
\<close>

theorem computePopularity_entries:
  "length (computePopularity posts users) = length posts \<and>
   computePopularity [] users = [] \<and>
   (\<forall>i < length posts.
      computePopularity posts users ! i =
        (let n = (case likes (posts ! i) of None \<Rightarrow> 0 | Some ls \<Rightarrow> int (length ls));
             q = js_div n (int (length users) - 1)
         in \<lparr>score_id = post_id (posts ! i),
             popularity = (if js_ge q (Fin 0) then q else Fin 0)\<rparr>))"
  by (simp add: computePopularity_def postPopularity_def likeCount_eq Let_def)

theorem computePopularity_entries_witness:
  "computePopularity [post1, post2, post3] [user1, user2, user3] ! 1 =
     \<lparr>score_id = 2, popularity = Fin (1 / 2)\<rparr>"
proof -
  have i: "(1::nat) < length [post1, post2, post3]" by simp
  have q: "js_div 1 2 = Fin (1 / 2)" by (simp add: js_div_def)
  have g: "js_ge (Fin (1 / 2)) (Fin 0)" by (simp add: js_ge_def)
  from computePopularity_entries [of "[post1, post2, post3]" "[user1, user2, user3]"] i
  show ?thesis by (simp add: post2_def q g)
qed

text \<open>
  C2: with at most one user the clamp rule is applied to the IEEE quotient as it is. With
  exactly one user a post with no likes gets 0 (\<open>0 / 0\<close> is \<open>NaN\<close>, which fails
  \<open>>= 0\<close>) and a post with likes gets \<open>Infinity\<close> (which passes \<open>>= 0\<close> and is
  returned). With no user the denominator is -1: a post with likes gets 0 (the quotient
  is negative) and a post with no likes keeps the quotient \<open>0 / -1\<close>, which passes
  \<open>>= 0\<close> and is zero (the negative zero of IEEE 754, for which \<open>=== 0\<close> holds).
\<close>

theorem computePopularity_few_users:
  "map popularity (computePopularity posts [u]) =
     map (\<lambda>p. if (case likes p of None \<Rightarrow> 0 | Some ls \<Rightarrow> length ls) = 0 then Fin 0 else PosInf) posts \<and>
   map popularity (computePopularity posts []) =
     map (\<lambda>p. if (case likes p of None \<Rightarrow> 0 | Some ls \<Rightarrow> length ls) = 0 then js_div 0 (- 1) else Fin 0) posts \<and>
   js_div 0 0 = NaN \<and> \<not> js_ge NaN (Fin 0) \<and>
   js_div (1 + int k) 0 = PosInf \<and> js_ge PosInf (Fin 0) \<and>
   js_div (1 + int k) (- 1) = Fin (- (1 + of_nat k)) \<and> \<not> js_ge (Fin (- (1 + of_nat k))) (Fin 0) \<and>
   js_ge (js_div 0 (- 1)) (Fin 0) \<and> js_strict_equals (js_div 0 (- 1)) (Fin 0)"
  by (auto simp: computePopularity_def postPopularity_def likeCount_def js_div_def js_ge_def
      Let_def split: option.splits)

theorem computePopularity_few_users_witness:
  "map popularity (computePopularity [post1, post2, post3] [user1]) = [PosInf, PosInf, Fin 0] \<and>
   map popularity (computePopularity [post1, post2, post3] []) = [Fin 0, Fin 0, NegZero]"
  using computePopularity_few_users [of "[post1, post2, post3]" user1 0]
  by (simp add: post1_def post2_def post3_def js_div_def)

subsection \<open>The listing\<close>

lemma matchesSearch_iff:
  "matchesSearch lower s p \<longleftrightarrow>
     (\<exists>ps ss. lower (title p) = ps @ lower s @ ss) \<or>
     (\<exists>c ps ss. content p = Some c \<and> lower c = ps @ lower s @ ss)"
  by (auto simp: matchesSearch_def str_includes_iff split: option.splits)

text \<open>
  C3: for the order keys \<open>popularidad-asc\<close> and \<open>popularidad-desc\<close> the listing is
  a rearrangement of the filtered posts, sorted ascending (descending) by the popularity
  looked up for each post in the scores computed from all the posts and all the users of
  the snapshot, not from the filtered posts. A post whose id has no entry in the scores
  counts with popularity 0.
\<close>

theorem readAll_popularidad_sorted:
  "mset (fst (PostController_readAll lc lower (Some ''popularidad-asc'') q w)) =
     mset (searchFilter lower q (postStore w)) \<and>
   sorted_wrt
     (\<lambda>a b. js_le (lookupPopularity (computePopularity (postStore w) (userStore w)) a)
                   (lookupPopularity (computePopularity (postStore w) (userStore w)) b))
     (fst (PostController_readAll lc lower (Some ''popularidad-asc'') q w)) \<and>
   mset (fst (PostController_readAll lc lower (Some ''popularidad-desc'') q w)) =
     mset (searchFilter lower q (postStore w)) \<and>
   sorted_wrt
     (\<lambda>a b. js_le (lookupPopularity (computePopularity (postStore w) (userStore w)) b)
                   (lookupPopularity (computePopularity (postStore w) (userStore w)) a))
     (fst (PostController_readAll lc lower (Some ''popularidad-desc'') q w)) \<and>
   (\<forall>t a. find (\<lambda>p. score_id p = post_id a) t = None \<longrightarrow> lookupPopularity t a = Fin 0)"
  by (simp only: readAll_popularidad_asc readAll_popularidad_desc fst_conv mset_js_sort
      sorted_popularidad_asc sorted_popularidad_desc simp_thms)
     (simp add: lookupPopularity_missing)

theorem readAll_popularidad_sorted_witness:
  "fst (PostController_readAll compareCodes lowerLatin1 (Some ''popularidad-asc'') (Some (str ''post'')) exampleWorld) =
     [post3, post2, post1] \<and>
   fst (PostController_readAll compareCodes lowerLatin1 (Some ''popularidad-desc'') (Some (str ''post'')) exampleWorld) =
     [post1, post2, post3] \<and>
   map (lookupPopularity (computePopularity (postStore exampleWorld) (userStore exampleWorld)))
     [post3, post2, post1, post4] = [Fin 0, Fin (1 / 2), Fin 1, Fin 0] \<and>
   sorted_wrt
     (\<lambda>a b. js_le (lookupPopularity (computePopularity (postStore exampleWorld) (userStore exampleWorld)) a)
                   (lookupPopularity (computePopularity (postStore exampleWorld) (userStore exampleWorld)) b))
     (fst (PostController_readAll compareCodes lowerLatin1 (Some ''popularidad-asc'') (Some (str ''post'')) exampleWorld)) \<and>
   lookupPopularity (computePopularity (postStore exampleWorld) (userStore exampleWorld)) post4 = Fin 0"
proof -
  have 1: "fst (PostController_readAll compareCodes lowerLatin1 (Some ''popularidad-asc'') (Some (str ''post'')) exampleWorld) =
     [post3, post2, post1]" by code_simp
  have 2: "fst (PostController_readAll compareCodes lowerLatin1 (Some ''popularidad-desc'') (Some (str ''post'')) exampleWorld) =
     [post1, post2, post3]" by code_simp
  have 3: "map (lookupPopularity (computePopularity (postStore exampleWorld) (userStore exampleWorld)))
     [post3, post2, post1, post4] = [Fin 0, Fin (1 / 2), Fin 1, Fin 0]" by code_simp
  have 4: "find (\<lambda>p. score_id p = post_id post4)
     (computePopularity (postStore exampleWorld) (userStore exampleWorld)) = None" by code_simp
  note t = readAll_popularidad_sorted
    [where lc = compareCodes and lower = lowerLatin1 and q = "Some (str ''post'')"
      and w = exampleWorld]
  from t have 5: "sorted_wrt
     (\<lambda>a b. js_le (lookupPopularity (computePopularity (postStore exampleWorld) (userStore exampleWorld)) a)
                   (lookupPopularity (computePopularity (postStore exampleWorld) (userStore exampleWorld)) b))
     (fst (PostController_readAll compareCodes lowerLatin1 (Some ''popularidad-asc'') (Some (str ''post'')) exampleWorld))"
    by blast
  from t 4 have 6: "lookupPopularity (computePopularity (postStore exampleWorld) (userStore exampleWorld)) post4 = Fin 0"
    by blast
  from 1 2 3 5 6 show ?thesis by blast
qed

lemma nombre_reverse:
  assumes c: "consistentOn lc (map title xs)" and n: "noTitleTies lc xs"
  shows "js_sort (\<lambda>a b. Fin (of_int (lc (title b) (title a)))) xs =
         rev (js_sort (\<lambda>a b. Fin (of_int (lc (title a) (title b)))) xs)"
proof -
  define le where "le = (\<lambda>(a::post) (b::post). lc (title a) (title b) \<le> 0)"
  let ?asc = "js_sort (\<lambda>a b. Fin (of_int (lc (title a) (title b)))) xs"
  let ?desc = "js_sort (\<lambda>a b. Fin (of_int (lc (title b) (title a)))) xs"
  have anti: "(0 < lc (title a) (title b)) = (lc (title b) (title a) < 0)"
    if "a \<in> set xs" "b \<in> set xs" for a b
    using c that by (simp add: consistentOn_def)
  have total: "le a b \<or> le b a" if "a \<in> set xs" "b \<in> set xs" for a b
    using anti[OF that] by (auto simp: le_def)
  have trans: "le a d" if "a \<in> set xs" "b \<in> set xs" "d \<in> set xs" "le a b" "le b d" for a b d
  proof -
    have "title a \<in> set (map title xs)" "title b \<in> set (map title xs)" "title d \<in> set (map title xs)"
      using that by simp_all
    then show ?thesis using c that(4,5) unfolding consistentOn_def le_def by blast
  qed
  have asc: "sorted_wrt le ?asc"
  proof (rule sorted_js_sort)
    fix x y assume "x \<in> set xs" "y \<in> set xs"
    then show "le x y \<or> le y x" by (rule total)
    show "js_gt (sortCompare (\<lambda>a b. Fin (of_int (lc (title a) (title b)))) x y) (Fin 0) = (\<not> le x y)"
      unfolding of_int_gt le_def by auto
  next
    fix x y z assume "x \<in> set xs" "y \<in> set xs" "z \<in> set xs" "le x y" "le y z"
    then show "le x z" by (rule trans)
  qed
  have desc: "sorted_wrt (\<lambda>a b. le b a) ?desc"
  proof (rule sorted_js_sort)
    fix x y assume "x \<in> set xs" "y \<in> set xs"
    then show "le y x \<or> le x y" using total by blast
    show "js_gt (sortCompare (\<lambda>a b. Fin (of_int (lc (title b) (title a)))) x y) (Fin 0) = (\<not> le y x)"
      unfolding of_int_gt le_def by auto
  next
    fix x y z assume "x \<in> set xs" "y \<in> set xs" "z \<in> set xs" "le y x" "le z y"
    then show "le z x" using trans by blast
  qed
  have "?asc = rev ?desc"
  proof (rule sorted_wrt_unique[where le = le])
    show "sorted_wrt le ?asc" by (rule asc)
    show "sorted_wrt le (rev ?desc)" using desc by (simp only: sorted_wrt_rev)
    show "mset ?asc = mset (rev ?desc)" by (simp only: mset_js_sort mset_rev)
  next
    fix x y assume "x \<in> set ?asc" "y \<in> set ?asc" and l: "le x y" "le y x"
    then have m: "x \<in> set xs" "y \<in> set xs" by (simp_all only: set_js_sort)
    have "lc (title x) (title y) = 0" using l anti[OF m] anti[OF m(2,1)] by (auto simp: le_def)
    then show "x = y" using n m unfolding noTitleTies_def by blast
  qed
  then show ?thesis by simp
qed

lemma popularidad_reverse:
  assumes n: "noPopularityTies t xs"
  shows "js_sort (\<lambda>a b. js_sub (lookupPopularity t a) (lookupPopularity t b)) xs =
         rev (js_sort (\<lambda>a b. js_sub (lookupPopularity t b) (lookupPopularity t a)) xs)"
proof (rule sorted_wrt_unique[where le = "\<lambda>a b. js_le (lookupPopularity t a) (lookupPopularity t b)"])
  show "sorted_wrt (\<lambda>a b. js_le (lookupPopularity t a) (lookupPopularity t b))
     (js_sort (\<lambda>a b. js_sub (lookupPopularity t a) (lookupPopularity t b)) xs)"
    by (rule sorted_popularidad_asc)
  show "sorted_wrt (\<lambda>a b. js_le (lookupPopularity t a) (lookupPopularity t b))
     (rev (js_sort (\<lambda>a b. js_sub (lookupPopularity t b) (lookupPopularity t a)) xs))"
    using sorted_popularidad_desc[of t xs] by (simp only: sorted_wrt_rev)
  show "mset (js_sort (\<lambda>a b. js_sub (lookupPopularity t a) (lookupPopularity t b)) xs) =
        mset (rev (js_sort (\<lambda>a b. js_sub (lookupPopularity t b) (lookupPopularity t a)) xs))"
    by (simp only: mset_js_sort mset_rev)
next
  fix x y
  assume "x \<in> set (js_sort (\<lambda>a b. js_sub (lookupPopularity t a) (lookupPopularity t b)) xs)"
    "y \<in> set (js_sort (\<lambda>a b. js_sub (lookupPopularity t a) (lookupPopularity t b)) xs)"
    and l: "js_le (lookupPopularity t x) (lookupPopularity t y)"
      "js_le (lookupPopularity t y) (lookupPopularity t x)"
  then have m: "x \<in> set xs" "y \<in> set xs" by (simp_all only: set_js_sort)
  have "lookupPopularity t x = lookupPopularity t y"
    using l by (rule js_le_antisym[OF lookupPopularity_key(2) lookupPopularity_key(2)])
  then show "x = y" using n m unfolding noPopularityTies_def by blast
qed

text \<open>
  C4: when no two of the listed posts tie, the two directions of a sort are exact
  reverses of one another: \<open>nombre-desc\<close> is the reverse of \<open>nombre-asc\<close> if the
  title comparison is consistent on the listed titles and no two different listed posts
  have titles that compare equal, and \<open>popularidad-asc\<close> is the reverse of
  \<open>popularidad-desc\<close> if no two different listed posts have the same looked-up
  popularity.
\<close>

theorem readAll_reverse:
  "(consistentOn lc (map title (searchFilter lower q (postStore w))) \<and>
    noTitleTies lc (searchFilter lower q (postStore w)) \<longrightarrow>
      fst (PostController_readAll lc lower (Some ''nombre-desc'') q w) =
      rev (fst (PostController_readAll lc lower (Some ''nombre-asc'') q w))) \<and>
   (noPopularityTies (computePopularity (postStore w) (userStore w)) (searchFilter lower q (postStore w)) \<longrightarrow>
      fst (PostController_readAll lc lower (Some ''popularidad-asc'') q w) =
      rev (fst (PostController_readAll lc lower (Some ''popularidad-desc'') q w)))"
  by (simp only: readAll_nombre_asc readAll_nombre_desc readAll_popularidad_asc
      readAll_popularidad_desc fst_conv)
    (blast intro: nombre_reverse popularidad_reverse)

theorem readAll_reverse_witness:
  "fst (PostController_readAll compareCodes lowerLatin1 (Some ''nombre-desc'') None exampleWorld) =
     rev (fst (PostController_readAll compareCodes lowerLatin1 (Some ''nombre-asc'') None exampleWorld)) \<and>
   fst (PostController_readAll compareCodes lowerLatin1 (Some ''popularidad-asc'') None exampleWorld) =
     rev (fst (PostController_readAll compareCodes lowerLatin1 (Some ''popularidad-desc'') None exampleWorld)) \<and>
   fst (PostController_readAll compareCodes lowerLatin1 (Some ''nombre-asc'') None exampleWorld) = [post1, post2, post3] \<and>
   fst (PostController_readAll compareCodes lowerLatin1 (Some ''popularidad-desc'') None exampleWorld) = [post1, post2, post3]"
proof -
  have 1: "consistentOn compareCodes (map title (searchFilter lowerLatin1 None (postStore exampleWorld)))"
    by code_simp
  have 2: "noTitleTies compareCodes (searchFilter lowerLatin1 None (postStore exampleWorld))"
    by code_simp
  have 3: "noPopularityTies (computePopularity (postStore exampleWorld) (userStore exampleWorld))
     (searchFilter lowerLatin1 None (postStore exampleWorld))"
    by code_simp
  have 4: "fst (PostController_readAll compareCodes lowerLatin1 (Some ''nombre-asc'') None exampleWorld) = [post1, post2, post3]"
    by code_simp
  have 5: "fst (PostController_readAll compareCodes lowerLatin1 (Some ''popularidad-desc'') None exampleWorld) = [post1, post2, post3]"
    by code_simp
  from readAll_reverse
    [where lc = compareCodes and lower = lowerLatin1 and q = None and w = exampleWorld]
    1 2 3 4 5
  show ?thesis by blast
qed

text \<open>
  Without the condition the claim fails: the sort is stable, so two posts with the same
  title and the same popularity keep the order of the snapshot in both directions.
\<close>

theorem readAll_reverse_counterexample:
  "fst (PostController_readAll compareCodes lowerLatin1 (Some ''nombre-desc'') None tieWorld) \<noteq>
     rev (fst (PostController_readAll compareCodes lowerLatin1 (Some ''nombre-asc'') None tieWorld)) \<and>
   fst (PostController_readAll compareCodes lowerLatin1 (Some ''popularidad-asc'') None tieWorld) \<noteq>
     rev (fst (PostController_readAll compareCodes lowerLatin1 (Some ''popularidad-desc'') None tieWorld))"
  by code_simp

text \<open>
  C5: with a non-empty search string the listing holds exactly the posts of the snapshot
  whose title or content, put in lower case by the host's \<open>toLowerCase\<close>, contains the
  search string put in lower case, each as often as the snapshot holds it. A post with no
  content is listed if and only if its title matches. This holds whatever the host's
  lower-case mapping and locale comparison are.
\<close>

theorem readAll_search:
  assumes "s \<noteq> []"
  shows "mset (fst (PostController_readAll lc lower order (Some s) w)) =
           filter_mset
             (\<lambda>p. (\<exists>ps ss. lower (title p) = ps @ lower s @ ss) \<or>
                  (\<exists>c ps ss. content p = Some c \<and> lower c = ps @ lower s @ ss))
             (mset (postStore w)) \<and>
         (\<forall>p. content p = None \<longrightarrow>
            (p \<in> set (fst (PostController_readAll lc lower order (Some s) w)) \<longleftrightarrow>
             p \<in> set (postStore w) \<and> (\<exists>ps ss. lower (title p) = ps @ lower s @ ss)))"
proof -
  define T where "T = (\<lambda>p::post. \<exists>ps ss. lower (title p) = ps @ lower s @ ss)"
  define C where
    "C = (\<lambda>p::post. \<exists>c ps ss. content p = Some c \<and> lower c = ps @ lower s @ ss)"
  let ?res = "fst (PostController_readAll lc lower order (Some s) w)"
  have "matchesSearch lower s = (\<lambda>p. T p \<or> C p)"
    unfolding T_def C_def by (rule ext) (rule matchesSearch_iff)
  then have f: "searchFilter lower (Some s) (postStore w) = filter (\<lambda>p. T p \<or> C p) (postStore w)"
    using assms by (simp only: searchFilter_def option.case if_False)
  have m: "mset ?res = filter_mset (\<lambda>p. T p \<or> C p) (mset (postStore w))"
    by (simp only: mset_readAll f mset_filter)
  have "set_mset (mset ?res) = set_mset (filter_mset (\<lambda>p. T p \<or> C p) (mset (postStore w)))"
    by (simp only: m)
  then have st: "set ?res = {p \<in> set (postStore w). T p \<or> C p}"
    by (simp only: set_mset_mset set_mset_filter)
  have noC: "\<not> C p" if "content p = None" for p
    using that by (simp add: C_def)
  have "\<forall>p. content p = None \<longrightarrow> (p \<in> set ?res \<longleftrightarrow> p \<in> set (postStore w) \<and> T p)"
    using st noC by blast
  with m show ?thesis unfolding T_def C_def by (rule conjI)
qed

theorem readAll_search_witness:
  "fst (PostController_readAll compareCodes lowerLatin1 (Some ''nombre-asc'') (Some (str ''SIN''))
          exampleWorld) = [post3] \<and>
   content post3 = None \<and>
   (post3 \<in> set (fst (PostController_readAll compareCodes lowerLatin1 (Some ''nombre-asc'')
                        (Some (str ''SIN'')) exampleWorld)) \<longleftrightarrow>
    post3 \<in> set (postStore exampleWorld) \<and>
    (\<exists>ps ss. lowerLatin1 (title post3) = ps @ lowerLatin1 (str ''SIN'') @ ss)) \<and>
   fst (PostController_readAll compareCodes lowerLatin1 None (Some [233]) accentWorld) = [post5] \<and>
   mset (fst (PostController_readAll compareCodes lowerLatin1 None (Some [233]) accentWorld)) =
     filter_mset
       (\<lambda>p. (\<exists>ps ss. lowerLatin1 (title p) = ps @ lowerLatin1 [233] @ ss) \<or>
            (\<exists>c ps ss. content p = Some c \<and> lowerLatin1 c = ps @ lowerLatin1 [233] @ ss))
       (mset (postStore accentWorld))"
proof -
  have h: "str ''SIN'' \<noteq> []" by (simp add: str_def)
  have 1: "fst (PostController_readAll compareCodes lowerLatin1 (Some ''nombre-asc'')
                  (Some (str ''SIN'')) exampleWorld) = [post3]"
    by code_simp
  have 2: "content post3 = None" by (simp add: post3_def)
  from readAll_search
    [OF h, where lc = compareCodes and lower = lowerLatin1 and order = "Some ''nombre-asc''"
      and w = exampleWorld] 2
  have 3: "post3 \<in> set (fst (PostController_readAll compareCodes lowerLatin1 (Some ''nombre-asc'')
                        (Some (str ''SIN'')) exampleWorld)) \<longleftrightarrow>
    post3 \<in> set (postStore exampleWorld) \<and>
    (\<exists>ps ss. lowerLatin1 (title post3) = ps @ lowerLatin1 (str ''SIN'') @ ss)"
    by blast
  have k: "[233::nat] \<noteq> []" by simp
  have 4: "fst (PostController_readAll compareCodes lowerLatin1 None (Some [233]) accentWorld) = [post5]"
    by code_simp
  from readAll_search
    [OF k, where lc = compareCodes and lower = lowerLatin1 and order = None and w = accentWorld]
  have 5: "mset (fst (PostController_readAll compareCodes lowerLatin1 None (Some [233]) accentWorld)) =
     filter_mset
       (\<lambda>p. (\<exists>ps ss. lowerLatin1 (title p) = ps @ lowerLatin1 [233] @ ss) \<or>
            (\<exists>c ps ss. content p = Some c \<and> lowerLatin1 c = ps @ lowerLatin1 [233] @ ss))
       (mset (postStore accentWorld))"
    by (rule conjunct1)
  from 1 2 3 4 5 show ?thesis by (intro conjI)
qed

text \<open>
  C6: the only effects of the listing are read-only \<open>readAll\<close> calls, and which ones
  depends on the order key. After the fetch of the post snapshot by \<open>ReadAllPosts\<close>
  (one \<open>readAll\<close> on the post source) the keys \<open>popularidad-asc\<close> and
  \<open>popularidad-desc\<close> add a second \<open>readAll\<close> on the post source and one on the
  user source, both made by the popularity computation; every other key adds no call, so
  the user source is not read. The stored posts and users are left as they are.
\<close>

theorem readAll_calls:
  "calls (snd (PostController_readAll lc lower order q w)) =
     calls (snd (ReadAllPosts_execute w)) @
       (if order = Some ''popularidad-asc'' \<or> order = Some ''popularidad-desc''
        then [PostReadAll, UserReadAll] else []) \<and>
   calls (snd (ReadAllPosts_execute w)) = calls w @ [PostReadAll] \<and>
   postStore (snd (PostController_readAll lc lower order q w)) = postStore w \<and>
   userStore (snd (PostController_readAll lc lower order q w)) = userStore w"
  by (cases order rule: readAll_cases)
     (simp_all add: readAll_nombre_asc readAll_nombre_desc readAll_popularidad_asc
        readAll_popularidad_desc readAll_default ReadAllPosts_execute_def
        postRepository_readAll_def)

text \<open>
  The claim as the specification words it (one fetch of each source whatever the order
  key) fails: ordering by name reads no users, ordering by popularity reads the posts
  twice.
\<close>

theorem readAll_calls_counterexample:
  "count_list (calls (snd (PostController_readAll compareCodes lowerLatin1 (Some ''nombre-asc'') None exampleWorld)))
     UserReadAll = 0 \<and>
   count_list (calls (snd (PostController_readAll compareCodes lowerLatin1 (Some ''popularidad-asc'') None exampleWorld)))
     PostReadAll = 2"
  by (simp add: readAll_nombre_asc readAll_popularidad_asc exampleWorld_def)

text \<open>
  C7: for an order key other than \<open>nombre-asc\<close>, \<open>nombre-desc\<close>,
  \<open>popularidad-asc\<close> and \<open>popularidad-desc\<close>, an absent key included, the listing is
  a rearrangement of the (possibly filtered) posts in descending order of creation time,
  the most recent first.
\<close>

theorem readAll_default_order:
  assumes "order \<noteq> Some ''nombre-asc''" "order \<noteq> Some ''nombre-desc''"
    "order \<noteq> Some ''popularidad-asc''" "order \<noteq> Some ''popularidad-desc''"
  shows "sorted_wrt (\<lambda>a b. date b \<le> date a) (fst (PostController_readAll lc lower order q w)) \<and>
         mset (fst (PostController_readAll lc lower order q w)) = mset (searchFilter lower q (postStore w))"
proof -
  have "fst (PostController_readAll lc lower order q w) =
          js_sort (\<lambda>a b. Fin (of_int (date b - date a))) (searchFilter lower q (postStore w))"
    by (simp only: readAll_default [OF assms] fst_conv)
  then show ?thesis
    by (simp only: sorted_date_desc mset_js_sort simp_thms)
qed

theorem readAll_default_order_witness:
  "fst (PostController_readAll compareCodes lowerLatin1 None None exampleWorld) = [post3, post2, post1] \<and>
   sorted_wrt (\<lambda>a b. date b \<le> date a) (fst (PostController_readAll compareCodes lowerLatin1 None None exampleWorld))"
proof -
  have "fst (PostController_readAll compareCodes lowerLatin1 None None exampleWorld) = [post3, post2, post1]"
    by code_simp
  moreover have "sorted_wrt (\<lambda>a b. date b \<le> date a) (fst (PostController_readAll compareCodes lowerLatin1 None None exampleWorld))"
    using readAll_default_order
      [where order = None and lc = compareCodes and lower = lowerLatin1 and q = None
        and w = exampleWorld] by simp
  ultimately show ?thesis by simp
qed

text \<open>
  C9: the deleted flag excludes no post. A soft-deleted post of the snapshot that passes
  the search filter (no search string, or a match) is in the listing whatever the order
  key; the search test does not read the flag; and the popularity computation emits one
  entry per post with scores that do not depend on any deleted flag.
\<close>

theorem readAll_keeps_deleted:
  "(deleted p \<and> p \<in> set (postStore w) \<and>
    (case q of None \<Rightarrow> True | Some s \<Rightarrow> s = [] \<or> matchesSearch lower s p) \<longrightarrow>
      p \<in> set (fst (PostController_readAll lc lower order q w))) \<and>
   matchesSearch lower s (p\<lparr>deleted := d\<rparr>) = matchesSearch lower s p \<and>
   computePopularity (map (\<lambda>x. x\<lparr>deleted := g x\<rparr>) posts) users = computePopularity posts users \<and>
   length (computePopularity posts users) = length posts"
proof -
  have "set (fst (PostController_readAll lc lower order q w)) = set (searchFilter lower q (postStore w))"
    using mset_readAll [of lc lower order q w] by (metis set_mset_mset)
  then have "p \<in> set (fst (PostController_readAll lc lower order q w))"
    if "p \<in> set (postStore w)" "case q of None \<Rightarrow> True | Some s \<Rightarrow> s = [] \<or> matchesSearch lower s p"
    using that by (auto simp: searchFilter_def split: option.splits)
  moreover have "matchesSearch lower s (p\<lparr>deleted := d\<rparr>) = matchesSearch lower s p"
    by (simp add: matchesSearch_def)
  moreover have "computePopularity (map (\<lambda>x. x\<lparr>deleted := g x\<rparr>) posts) users = computePopularity posts users"
    by (simp add: computePopularity_def postPopularity_def likeCount_def Let_def)
  moreover have "length (computePopularity posts users) = length posts"
    by (simp add: computePopularity_def)
  ultimately show ?thesis by blast
qed

theorem readAll_keeps_deleted_witness:
  "deleted post3 \<and>
   post3 \<in> set (fst (PostController_readAll compareCodes lowerLatin1 (Some ''popularidad-desc'') (Some (str ''post'')) exampleWorld)) \<and>
   computePopularity (postStore exampleWorld) (userStore exampleWorld) ! 2 = \<lparr>score_id = 3, popularity = Fin 0\<rparr>"
proof -
  have 1: "deleted post3" by (simp add: post3_def)
  have 2: "post3 \<in> set (postStore exampleWorld)" by (simp add: exampleWorld_def)
  have 3: "case Some (str ''post'') of None \<Rightarrow> True
             | Some s \<Rightarrow> s = [] \<or> matchesSearch lowerLatin1 s post3"
    by code_simp
  have 4: "computePopularity (postStore exampleWorld) (userStore exampleWorld) ! 2 = \<lparr>score_id = 3, popularity = Fin 0\<rparr>"
    by code_simp
  from readAll_keeps_deleted
    [where p = post3 and w = exampleWorld and q = "Some (str ''post'')" and lc = compareCodes
      and lower = lowerLatin1 and order = "Some ''popularidad-desc''"] 1 2 3 4
  show ?thesis by blast
qed

text \<open>
  C10: every score is the clamped quotient of the number of like records attached to the
  post (the length of the collection, whatever user a record names and however often a
  user repeats) by the number of users of the snapshot minus one (the length of the
  sequence, whatever the role or the banned flag of a user, the author included). So the
  scores stay as they are when every user is replaced by any other and when every like
  record is replaced by any other.
\<close>

theorem computePopularity_counts_all:
  "map popularity (computePopularity posts users) =
     map (\<lambda>p. let q = js_div (case likes p of None \<Rightarrow> 0 | Some ls \<Rightarrow> int (length ls))
                               (int (length users) - 1)
              in if js_ge q (Fin 0) then q else Fin 0) posts \<and>
   computePopularity posts (map f users) = computePopularity posts users \<and>
   computePopularity (map (\<lambda>p. p\<lparr>likes := map_option (map g) (likes p)\<rparr>) posts) users =
     computePopularity posts users"
  by (simp add: computePopularity_def postPopularity_def likeCount_eq Let_def
      split: option.splits)

theorem computePopularity_counts_all_witness:
  "map popularity (computePopularity [post1, post5] [user1, user4, user2]) = [Fin 1, Fin 1] \<and>
   banned user4 \<and> authorId post5 = user_id user1 \<and>
   map userId (the (likes post5)) = [user_id user4, user_id user4] \<and>
   computePopularity [post1, post5] (map (\<lambda>u. u\<lparr>banned := False\<rparr>) [user1, user4, user2]) =
     computePopularity [post1, post5] [user1, user4, user2]"
proof -
  note t = computePopularity_counts_all
    [where posts = "[post1, post5]" and users = "[user1, user4, user2]"
      and f = "\<lambda>u. u\<lparr>banned := False\<rparr>"]
  have q: "js_div 2 2 = Fin 1" "js_ge (Fin 1) (Fin 0)" by (simp_all add: js_div_def js_ge_def)
  from t have "map popularity (computePopularity [post1, post5] [user1, user4, user2]) = [Fin 1, Fin 1]"
    by (simp add: post1_def post5_def q)
  moreover have "banned user4" "authorId post5 = user_id user1"
    "map userId (the (likes post5)) = [user_id user4, user_id user4]"
    by (simp_all add: user4_def user1_def post5_def)
  moreover from t have "computePopularity [post1, post5] (map (\<lambda>u. u\<lparr>banned := False\<rparr>) [user1, user4, user2]) =
     computePopularity [post1, post5] [user1, user4, user2]"
    by blast
  ultimately show ?thesis by blast
qed

end
